theory Spec2Isabelle
  imports Complex_Main "HOL-Library.AList"
begin

section \<open>Python values\<close>

text \<open>
  A Python \<open>str\<close> is a sequence of Unicode code points and \<open>len\<close> counts code points, so
  text is a list of code points. \<open>lit\<close> embeds the ASCII literals of the source.
\<close>

type_synonym str = "nat list"

definition lit :: "string \<Rightarrow> str" where
  "lit s = map of_char s"

text \<open>
  JSON as Python holds it after \<open>json.loads\<close> and before \<open>json.dumps\<close>: \<open>None\<close>, \<open>bool\<close>,
  \<open>int\<close>, \<open>float\<close>, \<open>str\<close>, \<open>list\<close> and \<open>dict\<close>. The type \<open>'f\<close> stands for Python's \<open>float\<close>:
  the gateway only copies floats, so their arithmetic is left open. A \<open>dict\<close> is an
  association list in insertion order; a lookup takes the first binding of a key.
\<close>

datatype 'f json =
    JNull
  | JBool bool
  | JInt int
  | JFloat 'f
  | JStr str
  | JArr "'f json list"
  | JObj "(str \<times> 'f json) list"

text \<open>
  The exceptions other than \<open>HTTPException\<close> that can arise while a request is handled:
  the two transport failures of \<open>httpx\<close> the specification names, any other transport
  failure, \<open>response.json()\<close> on an unparseable body, \<open>.get\<close> on a value that is no
  \<open>dict\<close>, \<open>len\<close> of a value that has none, a failed pydantic validation, and the failure
  to serialise a response that holds a string with a surrogate code point.
\<close>

datatype exception =
    ConnectError
  | TimeoutException
  | TransportError
  | JSONDecodeError
  | AttributeError
  | TypeError
  | ValidationError
  | SerializationError

text \<open>\<open>d.get(key, default)\<close>: defined on a \<open>dict\<close> only.\<close>

fun py_get :: "'f json \<Rightarrow> str \<Rightarrow> 'f json \<Rightarrow> exception + 'f json" where
  "py_get (JObj kvs) k d = Inr (case map_of kvs k of Some v \<Rightarrow> v | None \<Rightarrow> d)"
| "py_get _ k d = Inl AttributeError"

text \<open>\<open>len(x)\<close>: defined on \<open>str\<close>, \<open>list\<close> and \<open>dict\<close> (the number of keys).\<close>

fun py_len :: "'f json \<Rightarrow> exception + nat" where
  "py_len (JStr s) = Inr (length s)"
| "py_len (JArr xs) = Inr (length xs)"
| "py_len (JObj kvs) = Inr (length (remdups (map fst kvs)))"
| "py_len _ = Inl TypeError"

text \<open>
  The validation pydantic runs on a field declared \<open>str\<close>: a \<open>str\<close> is taken as it is,
  anything else is refused. (Pydantic 1 would turn a number into its text; a number can
  only arrive as the backend's \<open>role\<close>, which no property below depends on.)
\<close>

fun validate_str :: "'f json \<Rightarrow> exception + str" where
  "validate_str (JStr s) = Inr s"
| "validate_str _ = Inl ValidationError"

text \<open>Sequencing of steps that can raise: the first exception ends the computation.\<close>

definition raising :: "exception + 'a \<Rightarrow> ('a \<Rightarrow> exception + 'b) \<Rightarrow> exception + 'b" where
  "raising r f = (case r of Inl e \<Rightarrow> Inl e | Inr v \<Rightarrow> f v)"

text \<open>Reading a key of a \<open>dict\<close>, \<open>None\<close> when the key is absent (or the value is no \<open>dict\<close>).\<close>

fun item :: "'f json \<Rightarrow> str \<Rightarrow> 'f json option" where
  "item (JObj kvs) k = map_of kvs k"
| "item _ k = None"

section \<open>The data model of \<open>main.py\<close>\<close>

record Message =
  role :: str
  content :: str

text \<open>\<open>stop: Optional[Union[str, List[str]]]\<close>\<close>

datatype stop_value = StopStr str | StopList "str list"

record 'f ChatCompletionRequest =
  model :: str
  messages :: "Message list"
  temperature :: "'f option"
  top_p :: "'f option"
  n' :: "int option"
  max_tokens :: "int option"
  stream :: "bool option"
  stop :: "stop_value option"
  presence_penalty :: "'f option"
  frequency_penalty :: "'f option"
  user :: "str option"

record Usage =
  prompt_tokens :: int
  completion_tokens :: int
  total_tokens :: int

record ChatCompletionResponseChoice =
  index :: int
  message :: Message
  finish_reason :: str

record ChatCompletionResponse =
  id' :: str
  object :: str
  created :: int
  model :: str
  choices :: "ChatCompletionResponseChoice list"
  usage :: Usage

text \<open>\<open>HTTPException(status_code, detail, headers)\<close>; no headers is the empty list.\<close>

record HTTPException =
  status_code :: int
  detail :: str
  headers :: "(str \<times> str) list"

text \<open>What a statement inside the \<open>try\<close> block of the handler can raise.\<close>

datatype raised = HTTPExc HTTPException | PyExc exception

section \<open>Configuration and the world outside\<close>

text \<open>
  \<open>API_TOKENS\<close> and \<open>OLLAMA_API_BASE\<close> are read from the environment once, at import.
\<close>

record config =
  API_TOKENS :: "str list"
  OLLAMA_API_BASE :: str

text \<open>
  One upstream call either raises, or returns a response with a \<open>status_code\<close>, a \<open>text\<close>
  and the result of \<open>response.json()\<close> (\<open>None\<close> when the body does not parse).
\<close>

datatype 'f upstream =
    Raises exception
  | Reply int str "'f json option"

text \<open>
  What the handler reads from outside during one request: \<open>str(uuid.uuid4())\<close>,
  \<open>int(time.time())\<close>, Python's \<open>str\<close> of an exception, and the backend answering
  \<open>client.post(url, json=...)\<close>.
\<close>

record 'f runtime =
  uuid4 :: str
  time_now :: int
  str_exc :: "exception \<Rightarrow> str"
  post :: "str \<Rightarrow> 'f json \<Rightarrow> 'f upstream"

text \<open>The upstream calls made so far, oldest first: the URL and the JSON body of each.\<close>

type_synonym 'f calls = "(str \<times> 'f json) list"

section \<open>The authentication dependency\<close>

definition verify_token :: "config \<Rightarrow> str \<Rightarrow> HTTPException + str" where
  "verify_token cfg credentials =
     (if credentials \<notin> set (API_TOKENS cfg)
      then Inl \<lparr>status_code = 401,
                detail = lit ''Invalid authentication token'',
                headers = [(lit ''WWW-Authenticate'', lit ''Bearer'')]\<rparr>
      else Inr credentials)"

section \<open>The chat completions handler\<close>

text \<open>An \<open>Optional[float]\<close> as JSON.\<close>

definition opt_float :: "'f option \<Rightarrow> 'f json" where
  "opt_float x = (case x of None \<Rightarrow> JNull | Some v \<Rightarrow> JFloat v)"

text \<open>
  Lines 137 to 151: the dictionary \<open>ollama_request\<close>. The two \<open>if\<close> statements test
  Python truthiness: \<open>None\<close>, \<open>0\<close>, the empty string and the empty list are all false.
  An assignment \<open>d[k] = v\<close> is \<open>AList.update\<close>.
\<close>

definition ollama_request :: "'f ChatCompletionRequest \<Rightarrow> 'f json" where
  "ollama_request request =
     (let options0 = [(lit ''temperature'', opt_float (temperature request)),
                      (lit ''top_p'', opt_float (top_p request))];
          options1 = (case max_tokens request of
                        None \<Rightarrow> options0
                      | Some m \<Rightarrow>
                          if m \<noteq> 0 then AList.update (lit ''num_predict'') (JInt m) options0
                          else options0);
          options2 = (case stop request of
                        None \<Rightarrow> options1
                      | Some (StopStr s) \<Rightarrow>
                          if s \<noteq> [] then AList.update (lit ''stop'') (JArr [JStr s]) options1
                          else options1
                      | Some (StopList l) \<Rightarrow>
                          if l \<noteq> [] then AList.update (lit ''stop'') (JArr (map JStr l)) options1
                          else options1)
      in JObj [(lit ''model'', JStr (ChatCompletionRequest.model request)),
               (lit ''messages'',
                  JArr (map (\<lambda>msg. JObj [(lit ''role'', JStr (role msg)),
                                           (lit ''content'', JStr (content msg))])
                            (messages request))),
               (lit ''stream'', JBool False),
               (lit ''options'', JObj options2)])"

text \<open>
  Lines 171 to 205: the OpenAI-shaped response built from the parsed backend body.
  Each step that can raise is a branch.
\<close>

definition convert_response ::
  "'f runtime \<Rightarrow> 'f ChatCompletionRequest \<Rightarrow> 'f json \<Rightarrow> exception + ChatCompletionResponse" where
  "convert_response rt request ollama_response =
     (let completion_id = lit ''chatcmpl-'' @ uuid4 rt;
          created_time = time_now rt
      in raising (py_get ollama_response (lit ''message'') (JObj [])) (\<lambda>assistant_message.
         let prompt_text = concat (map content (messages request))
         in raising (py_get assistant_message (lit ''content'') (JStr [])) (\<lambda>completion_text.
            let prompt_tokens = int (length prompt_text) div 4
            in raising (py_len completion_text) (\<lambda>len.
               let completion_tokens = int len div 4;
                   total_tokens = prompt_tokens + completion_tokens
               in raising (py_get assistant_message (lit ''role'') (JStr (lit ''assistant''))) (\<lambda>r.
                  raising (py_get assistant_message (lit ''content'') (JStr [])) (\<lambda>c.
                  raising (validate_str r) (\<lambda>role_str.
                  raising (validate_str c) (\<lambda>content_str.
                    Inr \<lparr>id' = completion_id,
                         object = lit ''chat.completion'',
                         created = created_time,
                         model = ChatCompletionRequest.model request,
                         choices =
                           [\<lparr>index = 0,
                             message = \<lparr>role = role_str, content = content_str\<rparr>,
                             finish_reason = lit ''stop''\<rparr>],
                         usage =
                           \<lparr>prompt_tokens = prompt_tokens,
                            completion_tokens = completion_tokens,
                            total_tokens = total_tokens\<rparr>\<rparr>))))))))"

text \<open>
  Lines 153 to 168: the single upstream call. It is recorded in the call log whether it
  returns or raises.
\<close>

definition call_ollama ::
  "config \<Rightarrow> 'f runtime \<Rightarrow> 'f json \<Rightarrow> 'f calls \<Rightarrow> (raised + 'f json) \<times> 'f calls" where
  "call_ollama cfg rt body calls =
     (let url = OLLAMA_API_BASE cfg @ lit ''/api/chat''
      in (case post rt url body of
            Raises e \<Rightarrow> Inl (PyExc e)
          | Reply code text parsed \<Rightarrow>
              if code \<noteq> 200
              then Inl (HTTPExc \<lparr>status_code = code,
                                 detail = lit ''Ollama API error: '' @ text,
                                 headers = []\<rparr>)
              else (case parsed of
                      None \<Rightarrow> Inl (PyExc JSONDecodeError)
                    | Some ollama_response \<Rightarrow> Inr ollama_response),
          calls @ [(url, body)]))"

text \<open>
  The body of \<open>create_chat_completion\<close>, with its \<open>try\<close> and the two \<open>except\<close> clauses:
  an \<open>HTTPException\<close> is raised again as it is, any other exception becomes a 500.
\<close>

definition create_chat_completion ::
  "config \<Rightarrow> 'f runtime \<Rightarrow> 'f ChatCompletionRequest \<Rightarrow> 'f calls
     \<Rightarrow> (HTTPException + ChatCompletionResponse) \<times> 'f calls" where
  "create_chat_completion cfg rt request calls =
     (case call_ollama cfg rt (ollama_request request) calls of
        (outcome, calls') \<Rightarrow>
          (case (case outcome of
                   Inl x \<Rightarrow> Inl x
                 | Inr ollama_response \<Rightarrow>
                     (case convert_response rt request ollama_response of
                        Inl e \<Rightarrow> Inl (PyExc e)
                      | Inr response \<Rightarrow> Inr response)) of
             Inr response \<Rightarrow> Inr response
           | Inl (HTTPExc h) \<Rightarrow> Inl h
           | Inl (PyExc e) \<Rightarrow>
               Inl \<lparr>status_code = 500,
                    detail = lit ''Error processing chat completion: '' @ str_exc rt e,
                    headers = []\<rparr>,
           calls'))"

text \<open>
  The dependency and the handler on a request body that has been decoded and validated:
  \<open>Depends(verify_token)\<close> is resolved on the bearer credentials first and the handler runs
  only when the dependency returns. What the framework does before (decoding the body)
  and after (serialising the returned response) is \<open>chat_completions_route\<close> below.
\<close>

definition post_chat_completions ::
  "config \<Rightarrow> 'f runtime \<Rightarrow> str \<Rightarrow> 'f ChatCompletionRequest \<Rightarrow> 'f calls
     \<Rightarrow> (HTTPException + ChatCompletionResponse) \<times> 'f calls" where
  "post_chat_completions cfg rt credentials request calls =
     (case verify_token cfg credentials of
        Inl h \<Rightarrow> (Inl h, calls)
      | Inr token \<Rightarrow> create_chat_completion cfg rt request calls)"

section \<open>Error responses\<close>

record 'f Response =
  status :: int
  body :: "'f json option"
  response_headers :: "(str \<times> str) list"

text \<open>The handler the application registers for \<open>Exception\<close> (lines 114 to 120).\<close>

definition global_exception_handler :: "(exception \<Rightarrow> str) \<Rightarrow> exception \<Rightarrow> 'f Response" where
  "global_exception_handler str_of exc =
     \<lparr>status = 500,
      body = Some (JObj [(lit ''error'',
                           JObj [(lit ''message'', JStr (str_of exc)),
                                 (lit ''type'', JStr (lit ''internal_server_error''))])]),
      response_headers = []\<rparr>"

text \<open>
  The application registers no handler for \<open>HTTPException\<close>, so FastAPI's own applies:
  the exception's status and headers, and the JSON body \<open>{"detail": exc.detail}\<close> unless
  the status allows no body (below 200, or 204, 205, 304).
\<close>

definition is_body_allowed_for_status_code :: "int \<Rightarrow> bool" where
  "is_body_allowed_for_status_code code \<longleftrightarrow> \<not> (code < 200 \<or> code \<in> {204, 205, 304})"

definition http_exception_handler :: "HTTPException \<Rightarrow> 'f Response" where
  "http_exception_handler exc =
     (if \<not> is_body_allowed_for_status_code (status_code exc)
      then \<lparr>status = status_code exc, body = None, response_headers = headers exc\<rparr>
      else \<lparr>status = status_code exc,
            body = Some (JObj [(lit ''detail'', JStr (detail exc))]),
            response_headers = headers exc\<rparr>)"

text \<open>The structured error body \<open>{error: {message, type}}\<close>.\<close>

definition error_shaped :: "'f json \<Rightarrow> bool" where
  "error_shaped j =
     (case item j (lit ''error'') of
        None \<Rightarrow> False
      | Some e \<Rightarrow> item e (lit ''message'') \<noteq> None \<and> item e (lit ''type'') \<noteq> None)"

text \<open>The HTTP status a client of the route sees: the exception's own, or 200.\<close>

definition status_of :: "HTTPException + ChatCompletionResponse \<Rightarrow> int" where
  "status_of r = (case r of Inl h \<Rightarrow> status_code h | Inr _ \<Rightarrow> 200)"

definition body_error_shaped :: "'f Response \<Rightarrow> bool" where
  "body_error_shaped resp = (case body resp of None \<Rightarrow> False | Some j \<Rightarrow> error_shaped j)"

section \<open>The route as FastAPI runs it\<close>

text \<open>
  The handler takes the body as a parameter beside \<open>Depends(verify_token)\<close> (lines 129 to
  131). FastAPI first decodes the body as JSON and answers 422 when that fails; then it
  resolves the dependency; then it validates the decoded body against
  \<open>ChatCompletionRequest\<close> and answers 422 when that fails; then it calls the handler. A body
  is therefore one of three things, the first two with the framework's list of errors.
\<close>

datatype 'f request_body =
    Undecodable "'f json list"
  | Invalid "'f json list"
  | Valid "'f ChatCompletionRequest"

definition decodable :: "'f request_body \<Rightarrow> bool" where
  "decodable inbound = (case inbound of Undecodable errors \<Rightarrow> False | _ \<Rightarrow> True)"

text \<open>FastAPI's handler for a request validation error.\<close>

definition request_validation_exception_handler :: "'f json list \<Rightarrow> 'f Response" where
  "request_validation_exception_handler errors =
     \<lparr>status = 422,
      body = Some (JObj [(lit ''detail'', JArr errors)]),
      response_headers = []\<rparr>"

text \<open>
  The returned \<open>ChatCompletionResponse\<close> is serialised after the handler's \<open>try\<close> block is
  left. A string that holds a surrogate code point (as the JSON escape of a lone surrogate
  in the backend's reply gives) cannot be encoded, and the exception raised then is not
  caught by the handler: it reaches \<open>global_exception_handler\<close>.
\<close>

definition encodable :: "str \<Rightarrow> bool" where
  "encodable s = list_all (\<lambda>c. c < 55296 \<or> 57343 < c) s"

definition response_json :: "ChatCompletionResponse \<Rightarrow> 'f json" where
  "response_json r =
     JObj [(lit ''id'', JStr (id' r)),
           (lit ''object'', JStr (object r)),
           (lit ''created'', JInt (created r)),
           (lit ''model'', JStr (model r)),
           (lit ''choices'',
              JArr (map (\<lambda>c. JObj [(lit ''index'', JInt (index c)),
                                     (lit ''message'',
                                        JObj [(lit ''role'', JStr (role (message c))),
                                              (lit ''content'', JStr (content (message c)))]),
                                     (lit ''finish_reason'', JStr (finish_reason c))])
                        (choices r))),
           (lit ''usage'',
              JObj [(lit ''prompt_tokens'', JInt (prompt_tokens (usage r))),
                    (lit ''completion_tokens'', JInt (completion_tokens (usage r))),
                    (lit ''total_tokens'', JInt (total_tokens (usage r)))])]"

definition serialize_response :: "ChatCompletionResponse \<Rightarrow> exception + 'f json" where
  "serialize_response r =
     (if list_all encodable
           ([id' r, object r, model r]
            @ concat (map (\<lambda>c. [role (message c), content (message c), finish_reason c])
                          (choices r)))
      then Inr (response_json r)
      else Inl SerializationError)"

text \<open>
  The route \<open>POST /v1/chat/completions\<close>, from the bearer credentials and the body to the
  HTTP response and the log of upstream calls.
\<close>

definition chat_completions_route ::
  "config \<Rightarrow> 'f runtime \<Rightarrow> str \<Rightarrow> 'f request_body \<Rightarrow> 'f calls \<Rightarrow> 'f Response \<times> 'f calls" where
  "chat_completions_route cfg rt credentials inbound calls =
     (case inbound of
        Undecodable errors \<Rightarrow> (request_validation_exception_handler errors, calls)
      | Invalid errors \<Rightarrow>
          (case verify_token cfg credentials of
             Inl h \<Rightarrow> (http_exception_handler h, calls)
           | Inr token \<Rightarrow> (request_validation_exception_handler errors, calls))
      | Valid request \<Rightarrow>
          (case post_chat_completions cfg rt credentials request calls of
             (Inl h, calls') \<Rightarrow> (http_exception_handler h, calls')
           | (Inr response, calls') \<Rightarrow>
               (case serialize_response response of
                  Inl e \<Rightarrow> (global_exception_handler (str_exc rt) e, calls')
                | Inr content_json \<Rightarrow>
                    (\<lparr>status = 200, body = Some content_json, response_headers = []\<rparr>,
                     calls'))))"

text \<open>\<open>ollama_request["options"].get(key)\<close>, \<open>None\<close> when the key is not in the options.\<close>

definition request_option :: "'f json \<Rightarrow> str \<Rightarrow> 'f json option" where
  "request_option rq k = (case item rq (lit ''options'') of None \<Rightarrow> None | Some opts \<Rightarrow> item opts k)"

section \<open>Concrete inputs and outputs\<close>

text \<open>
  The request of the specification's scenario with the defaults of the schema filled in,
  the default configuration, and a backend that answers \<open>Hello!\<close> and reports a model
  of its own.
\<close>

definition scenario_request :: "real ChatCompletionRequest" where
  "scenario_request =
     \<lparr>ChatCompletionRequest.model = lit ''llama2'',
      messages = [\<lparr>role = lit ''system'', content = lit ''You are helpful.''\<rparr>,
                  \<lparr>role = lit ''user'', content = lit ''Hi''\<rparr>],
      temperature = Some 0.7,
      top_p = Some 1.0,
      n' = Some 1,
      max_tokens = None,
      stream = Some False,
      stop = None,
      presence_penalty = Some 0,
      frequency_penalty = Some 0,
      user = None\<rparr>"

definition default_config :: config where
  "default_config =
     \<lparr>API_TOKENS = [lit ''test-token''], OLLAMA_API_BASE = lit ''http://localhost:11434''\<rparr>"

definition quoted :: "string \<Rightarrow> str" where
  "quoted s = [34] @ lit s @ [34]"

definition hello_text :: str where
  "hello_text =
     lit ''{'' @ quoted ''model'' @ lit '': '' @ quoted ''mistral'' @ lit '', ''
       @ quoted ''message'' @ lit '': {'' @ quoted ''role'' @ lit '': '' @ quoted ''assistant''
       @ lit '', '' @ quoted ''content'' @ lit '': '' @ quoted ''Hello!'' @ lit ''}, ''
       @ quoted ''done_reason'' @ lit '': '' @ quoted ''length'' @ lit ''}''"

definition hello_backend :: "str \<Rightarrow> real json \<Rightarrow> real upstream" where
  "hello_backend url rq =
     Reply 200 hello_text
       (Some (JObj [(lit ''model'', JStr (lit ''mistral'')),
                    (lit ''message'', JObj [(lit ''role'', JStr (lit ''assistant'')),
                                            (lit ''content'', JStr (lit ''Hello!''))]),
                    (lit ''done_reason'', JStr (lit ''length''))]))"

fun exception_text :: "exception \<Rightarrow> str" where
  "exception_text ConnectError = lit ''All connection attempts failed''"
| "exception_text SerializationError = lit ''surrogates not allowed''"
| "exception_text e = lit ''error''"

definition scenario_runtime :: "(str \<Rightarrow> real json \<Rightarrow> real upstream) \<Rightarrow> real runtime" where
  "scenario_runtime backend =
     \<lparr>uuid4 = lit ''123e4567-e89b-42d3-a456-426614174000'',
      time_now = 1700000000,
      str_exc = exception_text,
      post = backend\<rparr>"

text \<open>The response and the call log of the scenario.\<close>

definition scenario_response :: ChatCompletionResponse where
  "scenario_response =
     \<lparr>id' = lit ''chatcmpl-123e4567-e89b-42d3-a456-426614174000'',
      object = lit ''chat.completion'',
      created = 1700000000,
      model = lit ''llama2'',
      choices = [\<lparr>index = 0,
                 message = \<lparr>role = lit ''assistant'', content = lit ''Hello!''\<rparr>,
                 finish_reason = lit ''stop''\<rparr>],
      usage = \<lparr>prompt_tokens = 4, completion_tokens = 1, total_tokens = 5\<rparr>\<rparr>"

definition scenario_calls :: "real calls" where
  "scenario_calls = [(lit ''http://localhost:11434/api/chat'', ollama_request scenario_request)]"

text \<open>A backend that cannot be reached, one that times out, and one that answers 404.\<close>

definition unreachable_backend :: "str \<Rightarrow> real json \<Rightarrow> real upstream" where
  "unreachable_backend url rq = Raises ConnectError"

definition slow_backend :: "str \<Rightarrow> real json \<Rightarrow> real upstream" where
  "slow_backend url rq = Raises TimeoutException"

definition not_found_text :: str where
  "not_found_text = lit ''{'' @ quoted ''error'' @ lit '':'' @ quoted ''model not found'' @ lit ''}''"

definition not_found_backend :: "str \<Rightarrow> real json \<Rightarrow> real upstream" where
  "not_found_backend url rq =
     Reply 404 not_found_text (Some (JObj [(lit ''error'', JStr (lit ''model not found''))]))"

text \<open>
  The error list of a body that is not JSON, and a backend whose reply holds the escape
  of a lone surrogate as its content.
\<close>

definition json_invalid_errors :: "real json list" where
  "json_invalid_errors =
     [JObj [(lit ''type'', JStr (lit ''json_invalid'')),
            (lit ''loc'', JArr [JStr (lit ''body''), JInt 0]),
            (lit ''msg'', JStr (lit ''JSON decode error''))]]"

definition surrogate_text :: str where
  "surrogate_text =
     lit ''{'' @ quoted ''message'' @ lit '': {'' @ quoted ''role'' @ lit '': '' @ quoted ''assistant''
       @ lit '', '' @ quoted ''content'' @ lit '': '' @ [34, 92] @ lit ''ud800'' @ [34] @ lit ''}}''"

definition surrogate_backend :: "str \<Rightarrow> real json \<Rightarrow> real upstream" where
  "surrogate_backend url rq =
     Reply 200 surrogate_text
       (Some (JObj [(lit ''message'', JObj [(lit ''role'', JStr (lit ''assistant'')),
                                            (lit ''content'', JStr [55296])])]))"

text \<open>The response the handler returns for that reply; it cannot be serialised.\<close>

definition surrogate_response :: ChatCompletionResponse where
  "surrogate_response =
     \<lparr>id' = lit ''chatcmpl-123e4567-e89b-42d3-a456-426614174000'',
      object = lit ''chat.completion'',
      created = 1700000000,
      model = lit ''llama2'',
      choices = [\<lparr>index = 0,
                 message = \<lparr>role = lit ''assistant'', content = [55296]\<rparr>,
                 finish_reason = lit ''stop''\<rparr>],
      usage = \<lparr>prompt_tokens = 4, completion_tokens = 0, total_tokens = 4\<rparr>\<rparr>"

section \<open>The request sent to the backend\<close>

text \<open>What the options of the translated request hold under the two optional keys.\<close>

lemma request_option_num_predict:
  "request_option (ollama_request r) (lit ''num_predict'') =
     (case max_tokens r of None \<Rightarrow> None | Some m \<Rightarrow> if m = 0 then None else Some (JInt m))"
  by (simp add: request_option_def ollama_request_def Let_def lit_def update_conv'
           split: option.splits stop_value.splits)

lemma request_option_stop:
  "request_option (ollama_request r) (lit ''stop'') =
     (case stop r of
        None \<Rightarrow> None
      | Some (StopStr s) \<Rightarrow> if s = [] then None else Some (JArr [JStr s])
      | Some (StopList l) \<Rightarrow> if l = [] then None else Some (JArr (map JStr l)))"
  by (simp add: request_option_def ollama_request_def Let_def lit_def update_conv'
           split: option.splits stop_value.splits)

text \<open>
  C3, as stated, fails: \<open>max_tokens = 0\<close> is present, yet the test \<open>if request.max_tokens\<close> is
  false for it and the options carry no \<open>num_predict\<close>.
\<close>

theorem max_tokens_zero_omitted:
  "max_tokens (scenario_request\<lparr>max_tokens := Some 0\<rparr>) = Some 0
   \<and> request_option (ollama_request (scenario_request\<lparr>max_tokens := Some 0\<rparr>)) (lit ''num_predict'')
       \<noteq> Some (JInt 0)
   \<and> request_option (ollama_request (scenario_request\<lparr>max_tokens := Some 0\<rparr>)) (lit ''num_predict'')
       = None"
  by (simp add: request_option_num_predict)

text \<open>
  C3, amended: a \<open>max_tokens\<close> that is present and not zero is copied to \<open>num_predict\<close>;
  when \<open>max_tokens\<close> is absent or zero the options have no \<open>num_predict\<close> key at all.
\<close>

theorem num_predict_mirrors_max_tokens:
  "(max_tokens r = Some m \<and> m \<noteq> 0
      \<longrightarrow> request_option (ollama_request r) (lit ''num_predict'') = Some (JInt m))
   \<and> (max_tokens r = None \<or> max_tokens r = Some 0
      \<longrightarrow> request_option (ollama_request r) (lit ''num_predict'') = None)"
  by (auto simp: request_option_num_predict)

theorem num_predict_mirrors_max_tokens_witness:
  "max_tokens (scenario_request\<lparr>max_tokens := Some 256\<rparr>) = Some 256 \<and> (256::int) \<noteq> 0
   \<and> request_option (ollama_request (scenario_request\<lparr>max_tokens := Some 256\<rparr>)) (lit ''num_predict'')
       = Some (JInt 256)
   \<and> max_tokens scenario_request = None
   \<and> request_option (ollama_request scenario_request) (lit ''num_predict'') = None"
  using num_predict_mirrors_max_tokens [of "scenario_request\<lparr>max_tokens := Some 256\<rparr>" 256]
        num_predict_mirrors_max_tokens [of scenario_request 0]
  by (simp add: scenario_request_def)

text \<open>
  C4, as stated, fails: the empty string is a \<open>stop\<close> that is present, yet the test
  \<open>if request.stop\<close> is false for it and the options carry no \<open>stop\<close> list.
\<close>

theorem empty_stop_string_omitted:
  "stop (scenario_request\<lparr>stop := Some (StopStr [])\<rparr>) = Some (StopStr [])
   \<and> request_option (ollama_request (scenario_request\<lparr>stop := Some (StopStr [])\<rparr>)) (lit ''stop'')
       \<noteq> Some (JArr [JStr []])
   \<and> request_option (ollama_request (scenario_request\<lparr>stop := Some (StopStr [])\<rparr>)) (lit ''stop'')
       = None"
  by (simp add: request_option_stop)

text \<open>
  C4, amended: a \<open>stop\<close> given as a non-empty string becomes the one-element list of that
  string, a \<open>stop\<close> given as a non-empty list is passed on unchanged, and an absent \<open>stop\<close>
  leaves the options without a \<open>stop\<close> key.
\<close>

theorem stop_normalised:
  "(stop r = Some (StopStr s) \<and> s \<noteq> []
      \<longrightarrow> request_option (ollama_request r) (lit ''stop'') = Some (JArr [JStr s]))
   \<and> (stop r = Some (StopList l) \<and> l \<noteq> []
      \<longrightarrow> request_option (ollama_request r) (lit ''stop'') = Some (JArr (map JStr l)))
   \<and> (stop r = None \<longrightarrow> request_option (ollama_request r) (lit ''stop'') = None)"
  by (auto simp: request_option_stop)

theorem stop_normalised_witness:
  "stop (scenario_request\<lparr>stop := Some (StopStr (lit ''END''))\<rparr>) = Some (StopStr (lit ''END''))
   \<and> lit ''END'' \<noteq> []
   \<and> request_option (ollama_request (scenario_request\<lparr>stop := Some (StopStr (lit ''END''))\<rparr>))
         (lit ''stop'') = Some (JArr [JStr (lit ''END'')])
   \<and> stop (scenario_request\<lparr>stop := Some (StopList [lit ''a'', lit ''b''])\<rparr>)
         = Some (StopList [lit ''a'', lit ''b''])
   \<and> [lit ''a'', lit ''b''] \<noteq> []
   \<and> request_option (ollama_request (scenario_request\<lparr>stop := Some (StopList [lit ''a'', lit ''b''])\<rparr>))
         (lit ''stop'') = Some (JArr [JStr (lit ''a''), JStr (lit ''b'')])
   \<and> stop scenario_request = None
   \<and> request_option (ollama_request scenario_request) (lit ''stop'') = None"
  using stop_normalised [of "scenario_request\<lparr>stop := Some (StopStr (lit ''END''))\<rparr>" "lit ''END''" "[]"]
        stop_normalised [of "scenario_request\<lparr>stop := Some (StopList [lit ''a'', lit ''b''])\<rparr>"
                            "[]" "[lit ''a'', lit ''b'']"]
        stop_normalised [of scenario_request "[]" "[]"]
  by (simp add: scenario_request_def lit_def)

text \<open>
  C10: a \<open>stop\<close> that is present but empty, the empty string or the empty list, leaves the
  options without a \<open>stop\<close> key, and the whole translated request is the one an absent
  \<open>stop\<close> gives.
\<close>

theorem empty_stop_as_absent:
  assumes "stop r = Some (StopStr []) \<or> stop r = Some (StopList [])"
  shows "request_option (ollama_request r) (lit ''stop'') = None
         \<and> ollama_request r = ollama_request (r\<lparr>stop := None\<rparr>)"
proof
  from assms show "request_option (ollama_request r) (lit ''stop'') = None"
    by (auto simp: request_option_stop)
next
  from assms show "ollama_request r = ollama_request (r\<lparr>stop := None\<rparr>)"
    by (auto simp: ollama_request_def Let_def)
qed

theorem empty_stop_as_absent_witness:
  "(stop (scenario_request\<lparr>stop := Some (StopStr [])\<rparr>) = Some (StopStr [])
      \<or> stop (scenario_request\<lparr>stop := Some (StopStr [])\<rparr>) = Some (StopList []))
   \<and> request_option (ollama_request (scenario_request\<lparr>stop := Some (StopStr [])\<rparr>)) (lit ''stop'') = None
   \<and> ollama_request (scenario_request\<lparr>stop := Some (StopStr [])\<rparr>) = ollama_request scenario_request
   \<and> (stop (scenario_request\<lparr>stop := Some (StopList [])\<rparr>) = Some (StopStr [])
      \<or> stop (scenario_request\<lparr>stop := Some (StopList [])\<rparr>) = Some (StopList []))
   \<and> request_option (ollama_request (scenario_request\<lparr>stop := Some (StopList [])\<rparr>)) (lit ''stop'') = None
   \<and> ollama_request (scenario_request\<lparr>stop := Some (StopList [])\<rparr>) = ollama_request scenario_request"
proof -
  let ?s = "scenario_request\<lparr>stop := Some (StopStr [])\<rparr>"
  let ?l = "scenario_request\<lparr>stop := Some (StopList [])\<rparr>"
  have es: "?s\<lparr>stop := None\<rparr> = scenario_request"
    and el: "?l\<lparr>stop := None\<rparr> = scenario_request"
    by (simp_all add: scenario_request_def)
  have hs: "stop ?s = Some (StopStr []) \<or> stop ?s = Some (StopList [])" by simp
  have hl: "stop ?l = Some (StopStr []) \<or> stop ?l = Some (StopList [])" by simp
  note cs = empty_stop_as_absent [OF hs, unfolded es]
  note cl = empty_stop_as_absent [OF hl, unfolded el]
  from hs hl cs cl show ?thesis by blast
qed

text \<open>
  C7: whatever the request's \<open>stream\<close> field holds, the translated request has \<open>stream\<close>
  false, and so has every request the route sends to the backend.
\<close>

theorem stream_forced_false:
  "item (ollama_request r) (lit ''stream'') = Some (JBool False)
   \<and> (\<forall>c \<in> set (snd (post_chat_completions cfg rt credentials r [])).
         item (snd c) (lit ''stream'') = Some (JBool False))"
proof -
  have f: "item (ollama_request r) (lit ''stream'') = Some (JBool False)"
    by (simp add: ollama_request_def Let_def lit_def)
  have "set (snd (post_chat_completions cfg rt credentials r []))
          \<subseteq> {(OLLAMA_API_BASE cfg @ lit ''/api/chat'', ollama_request r)}"
    by (auto simp: post_chat_completions_def create_chat_completion_def call_ollama_def Let_def
             split: sum.splits prod.splits)
  with f show ?thesis by auto
qed

theorem stream_forced_false_witness:
  "stream (scenario_request\<lparr>stream := Some True\<rparr>) = Some True
   \<and> item (ollama_request (scenario_request\<lparr>stream := Some True\<rparr>)) (lit ''stream'') = Some (JBool False)
   \<and> snd (post_chat_completions default_config (scenario_runtime hello_backend) (lit ''test-token'')
             (scenario_request\<lparr>stream := Some True\<rparr>) [])
       = [(lit ''http://localhost:11434/api/chat'',
           ollama_request (scenario_request\<lparr>stream := Some True\<rparr>))]
   \<and> map (\<lambda>c. item (snd c) (lit ''stream''))
         (snd (post_chat_completions default_config (scenario_runtime hello_backend)
                 (lit ''test-token'') (scenario_request\<lparr>stream := Some True\<rparr>) []))
       = [Some (JBool False)]"
proof -
  let ?r = "scenario_request\<lparr>stream := Some True\<rparr>"
  have sent: "snd (post_chat_completions default_config (scenario_runtime hello_backend)
                     (lit ''test-token'') ?r [])
              = [(lit ''http://localhost:11434/api/chat'', ollama_request ?r)]"
    by (simp add: post_chat_completions_def create_chat_completion_def call_ollama_def Let_def
          verify_token_def default_config_def lit_def split: sum.splits prod.splits)
  note t = stream_forced_false [of ?r default_config "scenario_runtime hello_backend"
             "lit ''test-token''"]
  from t have "item (ollama_request ?r) (lit ''stream'') = Some (JBool False)" by blast
  with sent show ?thesis by simp
qed

section \<open>What the route returns\<close>

text \<open>
  The route returns a response only for an accepted token and a backend reply with
  status 200 whose parsed body converts; the one upstream call is then in the log.
\<close>

lemma post_chat_completions_Inr:
  assumes "post_chat_completions cfg rt credentials r calls = (Inr resp, calls')"
  shows "credentials \<in> set (API_TOKENS cfg)
         \<and> (\<exists>text j. post rt (OLLAMA_API_BASE cfg @ lit ''/api/chat'') (ollama_request r) = Reply 200 text (Some j)
                \<and> convert_response rt r j = Inr resp)
         \<and> calls' = calls @ [(OLLAMA_API_BASE cfg @ lit ''/api/chat'', ollama_request r)]"
  using assms
  by (auto simp: post_chat_completions_def verify_token_def create_chat_completion_def
        call_ollama_def Let_def
      split: if_splits sum.splits prod.splits upstream.splits option.splits raised.splits)

text \<open>The three ways the route raises.\<close>

lemma post_chat_completions_Inl:
  assumes "fst (post_chat_completions cfg rt credentials r calls) = Inl h"
  shows "(credentials \<notin> set (API_TOKENS cfg)
            \<and> h = \<lparr>status_code = 401, detail = lit ''Invalid authentication token'',
                     headers = [(lit ''WWW-Authenticate'', lit ''Bearer'')]\<rparr>)
         \<or> (credentials \<in> set (API_TOKENS cfg)
            \<and> (\<exists>e. h = \<lparr>status_code = 500,
                          detail = lit ''Error processing chat completion: '' @ str_exc rt e,
                          headers = []\<rparr>))
         \<or> (credentials \<in> set (API_TOKENS cfg)
            \<and> (\<exists>code text parsed.
                   post rt (OLLAMA_API_BASE cfg @ lit ''/api/chat'') (ollama_request r)
                     = Reply code text parsed
                   \<and> code \<noteq> 200
                   \<and> h = \<lparr>status_code = code, detail = lit ''Ollama API error: '' @ text,
                            headers = []\<rparr>))"
  using assms
  by (auto simp: post_chat_completions_def verify_token_def create_chat_completion_def
        call_ollama_def Let_def
      split: if_splits sum.splits prod.splits upstream.splits option.splits raised.splits)

text \<open>
  A content that has a length and passes validation is a string, and the length is the
  string's.
\<close>

lemma validated_length:
  assumes "py_len c = Inr len" and "validate_str c = Inr s"
  shows "c = JStr s \<and> len = length s"
  using assms by (cases c) auto

text \<open>Every response that is built has this form.\<close>

lemma convert_response_Inr:
  assumes "convert_response rt r j = Inr resp"
  shows "\<exists>role_str content_str.
           resp = \<lparr>id' = lit ''chatcmpl-'' @ uuid4 rt,
                   object = lit ''chat.completion'',
                   created = time_now rt,
                   model = ChatCompletionRequest.model r,
                   choices = [\<lparr>index = 0,
                              message = \<lparr>role = role_str, content = content_str\<rparr>,
                              finish_reason = lit ''stop''\<rparr>],
                   usage = \<lparr>prompt_tokens = int (length (concat (map content (messages r)))) div 4,
                            completion_tokens = int (length content_str) div 4,
                            total_tokens = int (length (concat (map content (messages r)))) div 4
                                           + int (length content_str) div 4\<rparr>\<rparr>"
  using assms
  by (auto simp: convert_response_def raising_def Let_def
      split: sum.splits dest!: validated_length)

text \<open>
  The handler does return: an accepted token and a 200 reply whose message, taken with the
  defaults of \<open>.get\<close>, has a string role and a string content give the response below.
\<close>

lemma handler_returns:
  assumes "credentials \<in> set (API_TOKENS cfg)"
    and "post rt (OLLAMA_API_BASE cfg @ lit ''/api/chat'') (ollama_request r)
           = Reply 200 text (Some reply)"
    and "py_get reply (lit ''message'') (JObj []) = Inr assistant_message"
    and "py_get assistant_message (lit ''role'') (JStr (lit ''assistant'')) = Inr (JStr role_str)"
    and "py_get assistant_message (lit ''content'') (JStr []) = Inr (JStr completion)"
  shows "post_chat_completions cfg rt credentials r calls
         = (Inr \<lparr>id' = lit ''chatcmpl-'' @ uuid4 rt,
                 object = lit ''chat.completion'',
                 created = time_now rt,
                 model = ChatCompletionRequest.model r,
                 choices = [\<lparr>index = 0,
                            message = \<lparr>role = role_str, content = completion\<rparr>,
                            finish_reason = lit ''stop''\<rparr>],
                 usage = \<lparr>prompt_tokens = int (length (concat (map content (messages r)))) div 4,
                          completion_tokens = int (length completion) div 4,
                          total_tokens = int (length (concat (map content (messages r)))) div 4
                                         + int (length completion) div 4\<rparr>\<rparr>,
            calls @ [(OLLAMA_API_BASE cfg @ lit ''/api/chat'', ollama_request r)])"
  using assms
  by (simp add: post_chat_completions_def verify_token_def create_chat_completion_def
        call_ollama_def convert_response_def raising_def Let_def)

text \<open>
  A response that is built has the reply's content as its completion, and its usage is
  computed from that content.
\<close>

lemma convert_response_reply:
  assumes "convert_response rt r reply = Inr resp"
  shows "\<exists>assistant_message completion.
           py_get reply (lit ''message'') (JObj []) = Inr assistant_message
           \<and> py_get assistant_message (lit ''content'') (JStr []) = Inr (JStr completion)
           \<and> map (content \<circ> message) (choices resp) = [completion]
           \<and> usage resp = \<lparr>prompt_tokens = int (length (concat (map content (messages r)))) div 4,
                            completion_tokens = int (length completion) div 4,
                            total_tokens = int (length (concat (map content (messages r)))) div 4
                                           + int (length completion) div 4\<rparr>"
  using assms
  by (auto simp: convert_response_def raising_def Let_def
      split: sum.splits dest!: validated_length)

text \<open>A returned response that can be serialised is answered with the status 200.\<close>

lemma chat_completions_route_completes:
  assumes "post_chat_completions cfg rt credentials r calls = (Inr resp, calls')"
    and "serialize_response resp = Inr content_json"
  shows "chat_completions_route cfg rt credentials (Valid r) calls
         = (\<lparr>status = 200, body = Some content_json, response_headers = []\<rparr>, calls')"
  using assms by (simp add: chat_completions_route_def)

text \<open>Python's \<open>//\<close> on a length is the floor of the quotient.\<close>

lemma quarter_floor: "int k div 4 = \<lfloor>real k / 4\<rfloor>"
  using floor_divide_of_nat_eq [of k 4, where 'a = real] by simp

text \<open>
  C1, as stated, fails: a request with a token that is not configured and a body that is
  not JSON is answered 422 without a \<open>WWW-Authenticate\<close> header, because the body is
  decoded before the dependency is resolved.
\<close>

theorem undecodable_body_answers_422:
  "lit ''wrong-token'' \<notin> set (API_TOKENS default_config)
   \<and> fst (chat_completions_route default_config (scenario_runtime hello_backend)
            (lit ''wrong-token'') (Undecodable json_invalid_errors) [])
       = \<lparr>status = 422,
          body = Some (JObj [(lit ''detail'', JArr json_invalid_errors)]),
          response_headers = []\<rparr>
   \<and> status (fst (chat_completions_route default_config (scenario_runtime hello_backend)
                    (lit ''wrong-token'') (Undecodable json_invalid_errors) [])) \<noteq> 401
   \<and> map_of (response_headers
               (fst (chat_completions_route default_config (scenario_runtime hello_backend)
                       (lit ''wrong-token'') (Undecodable json_invalid_errors) [])))
         (lit ''WWW-Authenticate'') = None"
  by (simp add: chat_completions_route_def request_validation_exception_handler_def
        default_config_def lit_def)

text \<open>
  C1, amended: a request whose body decodes as JSON and whose bearer token is not a member
  of the configured tokens gets the 401 response with the header
  \<open>WWW-Authenticate: Bearer\<close>; and for every request with such a token, whether its body
  decodes or not, the log of upstream calls is left as it was: nothing is translated or
  sent upstream.
\<close>

theorem invalid_token_401_before_upstream:
  assumes "credentials \<notin> set (API_TOKENS cfg)"
  shows "(decodable inbound
            \<longrightarrow> fst (chat_completions_route cfg rt credentials inbound calls)
                  = \<lparr>status = 401,
                     body = Some (JObj [(lit ''detail'',
                                         JStr (lit ''Invalid authentication token''))]),
                     response_headers = [(lit ''WWW-Authenticate'', lit ''Bearer'')]\<rparr>)
         \<and> snd (chat_completions_route cfg rt credentials inbound calls) = calls"
  using assms
  by (cases inbound)
     (simp_all add: chat_completions_route_def post_chat_completions_def verify_token_def
        decodable_def http_exception_handler_def is_body_allowed_for_status_code_def)

theorem invalid_token_401_before_upstream_witness:
  "lit ''test-token2'' \<notin> set (API_TOKENS default_config)
   \<and> decodable (Valid scenario_request)
   \<and> fst (chat_completions_route default_config (scenario_runtime hello_backend)
            (lit ''test-token2'') (Valid scenario_request) [])
       = \<lparr>status = 401,
          body = Some (JObj [(lit ''detail'', JStr (lit ''Invalid authentication token''))]),
          response_headers = [(lit ''WWW-Authenticate'', lit ''Bearer'')]\<rparr>
   \<and> snd (chat_completions_route default_config (scenario_runtime hello_backend)
            (lit ''test-token2'') (Valid scenario_request) []) = []
   \<and> snd (chat_completions_route default_config (scenario_runtime hello_backend)
            (lit ''test-token2'') (Undecodable json_invalid_errors) []) = []"
proof -
  have h: "lit ''test-token2'' \<notin> set (API_TOKENS default_config)"
    by (simp add: default_config_def lit_def)
  have d: "decodable (Valid scenario_request)"
    by (simp add: decodable_def)
  note a = invalid_token_401_before_upstream [OF h, of "Valid scenario_request"
             "scenario_runtime hello_backend" "[]"]
  note b = invalid_token_401_before_upstream [OF h, of "Undecodable json_invalid_errors"
             "scenario_runtime hello_backend" "[]", THEN conjunct2]
  from a b h d show ?thesis by blast
qed

text \<open>
  C2: for an accepted token and a backend reply with status 200 whose message has a string
  role and a string content, the handler returns a response whose \<open>prompt_tokens\<close> is the
  floor of a quarter of the length of the request's message contents concatenated in
  order, whose \<open>completion_tokens\<close> is the floor of a quarter of the length of the reply's
  content, and whose \<open>total_tokens\<close> is their sum. Conversely every response the handler
  returns comes from such a reply, carries the reply's content and has that usage.
\<close>

theorem usage_estimate:
  "(credentials \<in> set (API_TOKENS cfg)
      \<and> post rt (OLLAMA_API_BASE cfg @ lit ''/api/chat'') (ollama_request r)
          = Reply 200 text (Some reply)
      \<and> py_get reply (lit ''message'') (JObj []) = Inr assistant_message
      \<and> py_get assistant_message (lit ''role'') (JStr (lit ''assistant'')) = Inr (JStr role_str)
      \<and> py_get assistant_message (lit ''content'') (JStr []) = Inr (JStr completion)
    \<longrightarrow> map_sum id usage (fst (post_chat_completions cfg rt credentials r calls))
          = Inr \<lparr>prompt_tokens = \<lfloor>real (length (concat (map content (messages r)))) / 4\<rfloor>,
                 completion_tokens = \<lfloor>real (length completion) / 4\<rfloor>,
                 total_tokens = \<lfloor>real (length (concat (map content (messages r)))) / 4\<rfloor>
                                + \<lfloor>real (length completion) / 4\<rfloor>\<rparr>)
   \<and> (post_chat_completions cfg rt credentials r calls = (Inr resp, calls')
    \<longrightarrow> (\<exists>text' reply' assistant_message' completion'.
           post rt (OLLAMA_API_BASE cfg @ lit ''/api/chat'') (ollama_request r)
             = Reply 200 text' (Some reply')
           \<and> py_get reply' (lit ''message'') (JObj []) = Inr assistant_message'
           \<and> py_get assistant_message' (lit ''content'') (JStr []) = Inr (JStr completion')
           \<and> map (content \<circ> message) (choices resp) = [completion']
           \<and> usage resp
               = \<lparr>prompt_tokens = \<lfloor>real (length (concat (map content (messages r)))) / 4\<rfloor>,
                  completion_tokens = \<lfloor>real (length completion') / 4\<rfloor>,
                  total_tokens = \<lfloor>real (length (concat (map content (messages r)))) / 4\<rfloor>
                                 + \<lfloor>real (length completion') / 4\<rfloor>\<rparr>))"
proof (intro conjI impI)
  assume "credentials \<in> set (API_TOKENS cfg)
      \<and> post rt (OLLAMA_API_BASE cfg @ lit ''/api/chat'') (ollama_request r)
          = Reply 200 text (Some reply)
      \<and> py_get reply (lit ''message'') (JObj []) = Inr assistant_message
      \<and> py_get assistant_message (lit ''role'') (JStr (lit ''assistant'')) = Inr (JStr role_str)
      \<and> py_get assistant_message (lit ''content'') (JStr []) = Inr (JStr completion)"
  then have "post_chat_completions cfg rt credentials r calls
         = (Inr \<lparr>id' = lit ''chatcmpl-'' @ uuid4 rt,
                 object = lit ''chat.completion'',
                 created = time_now rt,
                 model = ChatCompletionRequest.model r,
                 choices = [\<lparr>index = 0,
                            message = \<lparr>role = role_str, content = completion\<rparr>,
                            finish_reason = lit ''stop''\<rparr>],
                 usage = \<lparr>prompt_tokens = int (length (concat (map content (messages r)))) div 4,
                          completion_tokens = int (length completion) div 4,
                          total_tokens = int (length (concat (map content (messages r)))) div 4
                                         + int (length completion) div 4\<rparr>\<rparr>,
            calls @ [(OLLAMA_API_BASE cfg @ lit ''/api/chat'', ollama_request r)])"
    by (intro handler_returns) blast+
  then show "map_sum id usage (fst (post_chat_completions cfg rt credentials r calls))
          = Inr \<lparr>prompt_tokens = \<lfloor>real (length (concat (map content (messages r)))) / 4\<rfloor>,
                 completion_tokens = \<lfloor>real (length completion) / 4\<rfloor>,
                 total_tokens = \<lfloor>real (length (concat (map content (messages r)))) / 4\<rfloor>
                                + \<lfloor>real (length completion) / 4\<rfloor>\<rparr>"
    by (simp add: quarter_floor)
next
  assume ret: "post_chat_completions cfg rt credentials r calls = (Inr resp, calls')"
  from post_chat_completions_Inr [OF ret] obtain text' reply'
    where reply: "post rt (OLLAMA_API_BASE cfg @ lit ''/api/chat'') (ollama_request r)
                    = Reply 200 text' (Some reply')"
      and conv: "convert_response rt r reply' = Inr resp"
    by blast
  from convert_response_reply [OF conv] reply
  show "\<exists>text' reply' assistant_message' completion'.
           post rt (OLLAMA_API_BASE cfg @ lit ''/api/chat'') (ollama_request r)
             = Reply 200 text' (Some reply')
           \<and> py_get reply' (lit ''message'') (JObj []) = Inr assistant_message'
           \<and> py_get assistant_message' (lit ''content'') (JStr []) = Inr (JStr completion')
           \<and> map (content \<circ> message) (choices resp) = [completion']
           \<and> usage resp
               = \<lparr>prompt_tokens = \<lfloor>real (length (concat (map content (messages r)))) / 4\<rfloor>,
                  completion_tokens = \<lfloor>real (length completion') / 4\<rfloor>,
                  total_tokens = \<lfloor>real (length (concat (map content (messages r)))) / 4\<rfloor>
                                 + \<lfloor>real (length completion') / 4\<rfloor>\<rparr>"
    by (auto simp: quarter_floor)
qed

theorem usage_estimate_witness:
  "lit ''test-token'' \<in> set (API_TOKENS default_config)
   \<and> post (scenario_runtime hello_backend) (OLLAMA_API_BASE default_config @ lit ''/api/chat'')
         (ollama_request scenario_request)
       = Reply 200 hello_text
           (Some (JObj [(lit ''model'', JStr (lit ''mistral'')),
                        (lit ''message'', JObj [(lit ''role'', JStr (lit ''assistant'')),
                                                (lit ''content'', JStr (lit ''Hello!''))]),
                        (lit ''done_reason'', JStr (lit ''length''))]))
   \<and> py_get (JObj [(lit ''model'', JStr (lit ''mistral'')),
                    (lit ''message'', JObj [(lit ''role'', JStr (lit ''assistant'')),
                                            (lit ''content'', JStr (lit ''Hello!''))]),
                    (lit ''done_reason'', JStr (lit ''length''))] :: real json)
         (lit ''message'') (JObj [])
       = Inr (JObj [(lit ''role'', JStr (lit ''assistant'')),
                    (lit ''content'', JStr (lit ''Hello!''))])
   \<and> py_get (JObj [(lit ''role'', JStr (lit ''assistant'')),
                    (lit ''content'', JStr (lit ''Hello!''))] :: real json)
         (lit ''role'') (JStr (lit ''assistant'')) = Inr (JStr (lit ''assistant''))
   \<and> py_get (JObj [(lit ''role'', JStr (lit ''assistant'')),
                    (lit ''content'', JStr (lit ''Hello!''))] :: real json)
         (lit ''content'') (JStr []) = Inr (JStr (lit ''Hello!''))
   \<and> length (concat (map content (messages scenario_request))) = 18
   \<and> length (lit ''Hello!'') = 6
   \<and> map_sum id usage (fst (post_chat_completions default_config (scenario_runtime hello_backend)
                               (lit ''test-token'') scenario_request []))
       = Inr \<lparr>prompt_tokens = 4, completion_tokens = 1, total_tokens = 5\<rparr>"
proof -
  have tok: "lit ''test-token'' \<in> set (API_TOKENS default_config)"
    by (simp add: default_config_def)
  have reply: "post (scenario_runtime hello_backend) (OLLAMA_API_BASE default_config @ lit ''/api/chat'')
                 (ollama_request scenario_request)
               = Reply 200 hello_text
                   (Some (JObj [(lit ''model'', JStr (lit ''mistral'')),
                                (lit ''message'', JObj [(lit ''role'', JStr (lit ''assistant'')),
                                                        (lit ''content'', JStr (lit ''Hello!''))]),
                                (lit ''done_reason'', JStr (lit ''length''))]))"
    by (simp add: scenario_runtime_def hello_backend_def)
  have msg: "py_get (JObj [(lit ''model'', JStr (lit ''mistral'')),
                           (lit ''message'', JObj [(lit ''role'', JStr (lit ''assistant'')),
                                                   (lit ''content'', JStr (lit ''Hello!''))]),
                           (lit ''done_reason'', JStr (lit ''length''))] :: real json)
               (lit ''message'') (JObj [])
             = Inr (JObj [(lit ''role'', JStr (lit ''assistant'')),
                          (lit ''content'', JStr (lit ''Hello!''))])"
    by (simp add: lit_def)
  have rol: "py_get (JObj [(lit ''role'', JStr (lit ''assistant'')),
                           (lit ''content'', JStr (lit ''Hello!''))] :: real json)
               (lit ''role'') (JStr (lit ''assistant'')) = Inr (JStr (lit ''assistant''))"
    by (simp add: lit_def)
  have con: "py_get (JObj [(lit ''role'', JStr (lit ''assistant'')),
                           (lit ''content'', JStr (lit ''Hello!''))] :: real json)
               (lit ''content'') (JStr []) = Inr (JStr (lit ''Hello!''))"
    by (simp add: lit_def)
  have len: "length (concat (map content (messages scenario_request))) = 18"
    by (simp add: scenario_request_def lit_def)
  have len': "length (lit ''Hello!'') = 6"
    by (simp add: lit_def)
  note t = usage_estimate [THEN conjunct1, rule_format, OF conjI [OF tok conjI [OF reply
             conjI [OF msg conjI [OF rol con]]]], of "[]"]
  have "map_sum id usage (fst (post_chat_completions default_config (scenario_runtime hello_backend)
                               (lit ''test-token'') scenario_request []))
       = Inr \<lparr>prompt_tokens = 4, completion_tokens = 1, total_tokens = 5\<rparr>"
    using t by (simp add: len len')
  with tok reply msg rol con len len' show ?thesis by blast
qed

text \<open>
  C8: for an accepted token and a backend reply with status 200 whose message has a string
  role and a string content, the handler returns a response whose \<open>model\<close> is the \<open>model\<close> of
  the request, whatever model the reply reports; and the \<open>model\<close> of every response the
  handler returns is the request's.
\<close>

theorem model_echoed_from_request:
  "(credentials \<in> set (API_TOKENS cfg)
      \<and> post rt (OLLAMA_API_BASE cfg @ lit ''/api/chat'') (ollama_request r)
          = Reply 200 text (Some reply)
      \<and> py_get reply (lit ''message'') (JObj []) = Inr assistant_message
      \<and> py_get assistant_message (lit ''role'') (JStr (lit ''assistant'')) = Inr (JStr role_str)
      \<and> py_get assistant_message (lit ''content'') (JStr []) = Inr (JStr completion)
    \<longrightarrow> map_sum id model (fst (post_chat_completions cfg rt credentials r calls))
          = Inr (ChatCompletionRequest.model r))
   \<and> (post_chat_completions cfg rt credentials r calls = (Inr resp, calls')
    \<longrightarrow> model resp = ChatCompletionRequest.model r)"
proof (intro conjI impI)
  assume "credentials \<in> set (API_TOKENS cfg)
      \<and> post rt (OLLAMA_API_BASE cfg @ lit ''/api/chat'') (ollama_request r)
          = Reply 200 text (Some reply)
      \<and> py_get reply (lit ''message'') (JObj []) = Inr assistant_message
      \<and> py_get assistant_message (lit ''role'') (JStr (lit ''assistant'')) = Inr (JStr role_str)
      \<and> py_get assistant_message (lit ''content'') (JStr []) = Inr (JStr completion)"
  then have "post_chat_completions cfg rt credentials r calls
         = (Inr \<lparr>id' = lit ''chatcmpl-'' @ uuid4 rt,
                 object = lit ''chat.completion'',
                 created = time_now rt,
                 model = ChatCompletionRequest.model r,
                 choices = [\<lparr>index = 0,
                            message = \<lparr>role = role_str, content = completion\<rparr>,
                            finish_reason = lit ''stop''\<rparr>],
                 usage = \<lparr>prompt_tokens = int (length (concat (map content (messages r)))) div 4,
                          completion_tokens = int (length completion) div 4,
                          total_tokens = int (length (concat (map content (messages r)))) div 4
                                         + int (length completion) div 4\<rparr>\<rparr>,
            calls @ [(OLLAMA_API_BASE cfg @ lit ''/api/chat'', ollama_request r)])"
    by (intro handler_returns) blast+
  then show "map_sum id model (fst (post_chat_completions cfg rt credentials r calls))
          = Inr (ChatCompletionRequest.model r)"
    by simp
next
  assume ret: "post_chat_completions cfg rt credentials r calls = (Inr resp, calls')"
  from post_chat_completions_Inr [OF ret] obtain j where "convert_response rt r j = Inr resp"
    by blast
  from convert_response_Inr [OF this] show "model resp = ChatCompletionRequest.model r" by auto
qed

theorem model_echoed_from_request_witness:
  "lit ''test-token'' \<in> set (API_TOKENS default_config)
   \<and> post (scenario_runtime hello_backend) (OLLAMA_API_BASE default_config @ lit ''/api/chat'')
         (ollama_request scenario_request)
       = Reply 200 hello_text
           (Some (JObj [(lit ''model'', JStr (lit ''mistral'')),
                        (lit ''message'', JObj [(lit ''role'', JStr (lit ''assistant'')),
                                                (lit ''content'', JStr (lit ''Hello!''))]),
                        (lit ''done_reason'', JStr (lit ''length''))]))
   \<and> py_get (JObj [(lit ''model'', JStr (lit ''mistral'')),
                    (lit ''message'', JObj [(lit ''role'', JStr (lit ''assistant'')),
                                            (lit ''content'', JStr (lit ''Hello!''))]),
                    (lit ''done_reason'', JStr (lit ''length''))] :: real json)
         (lit ''message'') (JObj [])
       = Inr (JObj [(lit ''role'', JStr (lit ''assistant'')),
                    (lit ''content'', JStr (lit ''Hello!''))])
   \<and> py_get (JObj [(lit ''role'', JStr (lit ''assistant'')),
                    (lit ''content'', JStr (lit ''Hello!''))] :: real json)
         (lit ''role'') (JStr (lit ''assistant'')) = Inr (JStr (lit ''assistant''))
   \<and> py_get (JObj [(lit ''role'', JStr (lit ''assistant'')),
                    (lit ''content'', JStr (lit ''Hello!''))] :: real json)
         (lit ''content'') (JStr []) = Inr (JStr (lit ''Hello!''))
   \<and> ChatCompletionRequest.model scenario_request = lit ''llama2''
   \<and> map_sum id model (fst (post_chat_completions default_config (scenario_runtime hello_backend)
                               (lit ''test-token'') scenario_request []))
       = Inr (lit ''llama2'')"
proof -
  have tok: "lit ''test-token'' \<in> set (API_TOKENS default_config)"
    by (simp add: default_config_def)
  have reply: "post (scenario_runtime hello_backend) (OLLAMA_API_BASE default_config @ lit ''/api/chat'')
                 (ollama_request scenario_request)
               = Reply 200 hello_text
                   (Some (JObj [(lit ''model'', JStr (lit ''mistral'')),
                                (lit ''message'', JObj [(lit ''role'', JStr (lit ''assistant'')),
                                                        (lit ''content'', JStr (lit ''Hello!''))]),
                                (lit ''done_reason'', JStr (lit ''length''))]))"
    by (simp add: scenario_runtime_def hello_backend_def)
  have msg: "py_get (JObj [(lit ''model'', JStr (lit ''mistral'')),
                           (lit ''message'', JObj [(lit ''role'', JStr (lit ''assistant'')),
                                                   (lit ''content'', JStr (lit ''Hello!''))]),
                           (lit ''done_reason'', JStr (lit ''length''))] :: real json)
               (lit ''message'') (JObj [])
             = Inr (JObj [(lit ''role'', JStr (lit ''assistant'')),
                          (lit ''content'', JStr (lit ''Hello!''))])"
    by (simp add: lit_def)
  have rol: "py_get (JObj [(lit ''role'', JStr (lit ''assistant'')),
                           (lit ''content'', JStr (lit ''Hello!''))] :: real json)
               (lit ''role'') (JStr (lit ''assistant'')) = Inr (JStr (lit ''assistant''))"
    by (simp add: lit_def)
  have con: "py_get (JObj [(lit ''role'', JStr (lit ''assistant'')),
                           (lit ''content'', JStr (lit ''Hello!''))] :: real json)
               (lit ''content'') (JStr []) = Inr (JStr (lit ''Hello!''))"
    by (simp add: lit_def)
  have req: "ChatCompletionRequest.model scenario_request = lit ''llama2''"
    by (simp add: scenario_request_def)
  note t = model_echoed_from_request [THEN conjunct1, rule_format, OF conjI [OF tok conjI [OF reply
             conjI [OF msg conjI [OF rol con]]]], of "[]"]
  have "map_sum id model (fst (post_chat_completions default_config (scenario_runtime hello_backend)
                               (lit ''test-token'') scenario_request []))
       = Inr (lit ''llama2'')"
    using t by (simp add: req)
  with tok reply msg rol con req show ?thesis by blast
qed

text \<open>
  C9: every response the route returns has exactly one choice, and its \<open>finish_reason\<close>
  is \<open>stop\<close>, whatever finish signal the backend gives.
\<close>

theorem one_choice_finish_stop:
  assumes "post_chat_completions cfg rt credentials r calls = (Inr resp, calls')"
  shows "length (choices resp) = 1 \<and> map finish_reason (choices resp) = [lit ''stop'']"
proof -
  from post_chat_completions_Inr [OF assms] obtain j where "convert_response rt r j = Inr resp"
    by blast
  from convert_response_Inr [OF this] show ?thesis by auto
qed

theorem one_choice_finish_stop_witness:
  "post_chat_completions default_config (scenario_runtime hello_backend) (lit ''test-token'')
     scenario_request [] = (Inr scenario_response, scenario_calls)
   \<and> length (choices scenario_response) = 1
   \<and> map finish_reason (choices scenario_response) = [lit ''stop'']"
proof -
  have run: "post_chat_completions default_config (scenario_runtime hello_backend) (lit ''test-token'')
     scenario_request [] = (Inr scenario_response, scenario_calls)"
    by (simp add: post_chat_completions_def verify_token_def create_chat_completion_def
        call_ollama_def convert_response_def raising_def Let_def default_config_def
        scenario_runtime_def hello_backend_def scenario_response_def scenario_calls_def
        scenario_request_def lit_def)
  from one_choice_finish_stop [OF run] run show ?thesis by simp
qed

section \<open>Errors\<close>

text \<open>
  C5, as stated, fails: when the upstream call raises a connection failure or a timeout,
  the \<open>except Exception\<close> clause turns it into the status 500, not 502 or 504.
\<close>

theorem unreachable_backend_gives_500:
  "status_of (fst (post_chat_completions default_config (scenario_runtime unreachable_backend)
                     (lit ''test-token'') scenario_request [])) = 500
   \<and> status_of (fst (post_chat_completions default_config (scenario_runtime unreachable_backend)
                     (lit ''test-token'') scenario_request [])) \<notin> {502, 504}
   \<and> status_of (fst (post_chat_completions default_config (scenario_runtime slow_backend)
                     (lit ''test-token'') scenario_request [])) = 500
   \<and> status_of (fst (post_chat_completions default_config (scenario_runtime slow_backend)
                     (lit ''test-token'') scenario_request [])) \<notin> {502, 504}"
  by (simp add: post_chat_completions_def verify_token_def create_chat_completion_def
        call_ollama_def Let_def default_config_def scenario_runtime_def unreachable_backend_def
        slow_backend_def status_of_def)

text \<open>
  C5, amended: for an accepted token, an upstream call that raises (a connection failure
  and a timeout included) gives the status 500 with the detail
  \<open>Error processing chat completion:\<close> followed by the exception's text, and an upstream
  reply with a status other than 200 gives that same status with the detail
  \<open>Ollama API error:\<close> followed by the reply's text.
\<close>

theorem upstream_failure_statuses:
  assumes "credentials \<in> set (API_TOKENS cfg)"
  shows "(post rt (OLLAMA_API_BASE cfg @ lit ''/api/chat'') (ollama_request r) = Raises e
            \<longrightarrow> fst (post_chat_completions cfg rt credentials r calls)
                  = Inl \<lparr>status_code = 500,
                         detail = lit ''Error processing chat completion: '' @ str_exc rt e,
                         headers = []\<rparr>)
         \<and> (post rt (OLLAMA_API_BASE cfg @ lit ''/api/chat'') (ollama_request r) = Reply code text parsed
              \<and> code \<noteq> 200
            \<longrightarrow> fst (post_chat_completions cfg rt credentials r calls)
                  = Inl \<lparr>status_code = code,
                         detail = lit ''Ollama API error: '' @ text,
                         headers = []\<rparr>)"
  using assms
  by (simp add: post_chat_completions_def verify_token_def create_chat_completion_def
        call_ollama_def Let_def)

theorem upstream_failure_statuses_witness:
  "lit ''test-token'' \<in> set (API_TOKENS default_config)
   \<and> post (scenario_runtime unreachable_backend) (OLLAMA_API_BASE default_config @ lit ''/api/chat'')
         (ollama_request scenario_request) = Raises ConnectError
   \<and> fst (post_chat_completions default_config (scenario_runtime unreachable_backend)
            (lit ''test-token'') scenario_request [])
       = Inl \<lparr>status_code = 500,
              detail = lit ''Error processing chat completion: All connection attempts failed'',
              headers = []\<rparr>
   \<and> post (scenario_runtime not_found_backend) (OLLAMA_API_BASE default_config @ lit ''/api/chat'')
         (ollama_request scenario_request)
       = Reply 404 not_found_text (Some (JObj [(lit ''error'', JStr (lit ''model not found''))]))
   \<and> (404::int) \<noteq> 200
   \<and> fst (post_chat_completions default_config (scenario_runtime not_found_backend)
            (lit ''test-token'') scenario_request [])
       = Inl \<lparr>status_code = 404,
              detail = lit ''Ollama API error: '' @ not_found_text,
              headers = []\<rparr>"
proof -
  have h: "lit ''test-token'' \<in> set (API_TOKENS default_config)"
    by (simp add: default_config_def)
  have down: "post (scenario_runtime unreachable_backend)
                (OLLAMA_API_BASE default_config @ lit ''/api/chat'') (ollama_request scenario_request)
              = Raises ConnectError"
    by (simp add: scenario_runtime_def unreachable_backend_def)
  have nf: "post (scenario_runtime not_found_backend)
                (OLLAMA_API_BASE default_config @ lit ''/api/chat'') (ollama_request scenario_request)
              = Reply 404 not_found_text (Some (JObj [(lit ''error'', JStr (lit ''model not found''))]))"
    by (simp add: scenario_runtime_def not_found_backend_def)
  have exc_text: "str_exc (scenario_runtime unreachable_backend) ConnectError
               = lit ''All connection attempts failed''"
    by (simp add: scenario_runtime_def)
  note a = upstream_failure_statuses [OF h, of "scenario_runtime unreachable_backend" scenario_request
             ConnectError "[]" 0 "[]" None, THEN conjunct1, rule_format, OF down]
  note b = upstream_failure_statuses [OF h, of "scenario_runtime not_found_backend" scenario_request
             ConnectError "[]" 404 not_found_text
             "Some (JObj [(lit ''error'', JStr (lit ''model not found''))])",
             THEN conjunct2, rule_format, OF conjI [OF nf]]
  from a b h down nf exc_text show ?thesis by (simp add: lit_def)
qed

text \<open>
  C6, as stated, fails: the body of the 401 response is \<open>{"detail": "Invalid authentication
  token"}\<close>, which has no \<open>error\<close> object.
\<close>

theorem unauthorized_body_is_detail:
  "fst (chat_completions_route default_config (scenario_runtime hello_backend)
          (lit ''wrong-token'') (Valid scenario_request) [])
     = \<lparr>status = 401,
        body = Some (JObj [(lit ''detail'', JStr (lit ''Invalid authentication token''))]),
        response_headers = [(lit ''WWW-Authenticate'', lit ''Bearer'')]\<rparr>
   \<and> \<not> error_shaped (JObj [(lit ''detail'', JStr (lit ''Invalid authentication token''))] :: real json)"
  by (simp add: chat_completions_route_def post_chat_completions_def verify_token_def
        http_exception_handler_def is_body_allowed_for_status_code_def default_config_def
        error_shaped_def lit_def)

text \<open>
  C6, amended: an error the route raises as an \<open>HTTPException\<close> (the 401 of the
  authentication, a propagated upstream status, the 500 of the handler's own \<open>except\<close>
  clause) is answered with the body \<open>{"detail": message}\<close>, or with no body where the
  propagated status allows none, and not with the shape \<open>{error: {message, type}}\<close>. An
  exception that escapes the handler, as when the returned response cannot be serialised,
  is answered by the top-level handler with the status 500 and the body
  \<open>{error: {message, type}}\<close> whose type is \<open>internal_server_error\<close>.
\<close>

theorem error_body_shapes:
  "(fst (post_chat_completions cfg (rt :: 'f runtime) credentials r calls) = Inl h
      \<longrightarrow> fst (chat_completions_route cfg rt credentials (Valid r) calls)
            = http_exception_handler h
          \<and> (status_code h = 401 \<or> status_code h = 500
               \<or> (\<exists>text parsed.
                     post rt (OLLAMA_API_BASE cfg @ lit ''/api/chat'') (ollama_request r)
                       = Reply (status_code h) text parsed
                     \<and> detail h = lit ''Ollama API error: '' @ text))
          \<and> body (http_exception_handler h :: 'f Response)
              = (if is_body_allowed_for_status_code (status_code h)
                 then Some (JObj [(lit ''detail'', JStr (detail h))]) else None)
          \<and> \<not> body_error_shaped (http_exception_handler h :: 'f Response))
   \<and> (fst (post_chat_completions cfg rt credentials r calls) = Inr resp
        \<and> serialize_response resp = (Inl e :: exception + 'f json)
      \<longrightarrow> fst (chat_completions_route cfg rt credentials (Valid r) calls)
            = global_exception_handler (str_exc rt) e
          \<and> global_exception_handler (str_exc rt) e
              = \<lparr>status = 500,
                 body = Some (JObj [(lit ''error'',
                                     JObj [(lit ''message'', JStr (str_exc rt e)),
                                           (lit ''type'', JStr (lit ''internal_server_error''))])]),
                 response_headers = []\<rparr>
          \<and> body_error_shaped (global_exception_handler (str_exc rt) e :: 'f Response))"
proof (intro conjI impI)
  assume raised: "fst (post_chat_completions cfg rt credentials r calls) = Inl h"
  then show "fst (chat_completions_route cfg rt credentials (Valid r) calls)
               = http_exception_handler h"
    by (cases "post_chat_completions cfg rt credentials r calls")
       (simp add: chat_completions_route_def)
  from post_chat_completions_Inl [OF raised]
  show "status_code h = 401 \<or> status_code h = 500
        \<or> (\<exists>text parsed.
              post rt (OLLAMA_API_BASE cfg @ lit ''/api/chat'') (ollama_request r)
                = Reply (status_code h) text parsed
              \<and> detail h = lit ''Ollama API error: '' @ text)"
    by auto
  show "body (http_exception_handler h :: 'f Response)
          = (if is_body_allowed_for_status_code (status_code h)
             then Some (JObj [(lit ''detail'', JStr (detail h))]) else None)"
    by (simp add: http_exception_handler_def)
  show "\<not> body_error_shaped (http_exception_handler h :: 'f Response)"
    by (simp add: http_exception_handler_def body_error_shaped_def error_shaped_def lit_def)
next
  assume "fst (post_chat_completions cfg rt credentials r calls) = Inr resp
          \<and> serialize_response resp = (Inl e :: exception + 'f json)"
  then show "fst (chat_completions_route cfg rt credentials (Valid r) calls)
               = global_exception_handler (str_exc rt) e"
    by (cases "post_chat_completions cfg rt credentials r calls")
       (simp add: chat_completions_route_def)
next
  show "global_exception_handler (str_exc rt) e
          = \<lparr>status = 500,
             body = Some (JObj [(lit ''error'',
                                 JObj [(lit ''message'', JStr (str_exc rt e)),
                                       (lit ''type'', JStr (lit ''internal_server_error''))])]),
             response_headers = []\<rparr>"
    by (simp add: global_exception_handler_def)
next
  show "body_error_shaped (global_exception_handler (str_exc rt) e :: 'f Response)"
    by (simp add: global_exception_handler_def body_error_shaped_def error_shaped_def lit_def)
qed

theorem error_body_shapes_witness:
  "fst (post_chat_completions default_config (scenario_runtime not_found_backend)
          (lit ''test-token'') scenario_request [])
     = Inl \<lparr>status_code = 404, detail = lit ''Ollama API error: '' @ not_found_text, headers = []\<rparr>
   \<and> fst (chat_completions_route default_config (scenario_runtime not_found_backend)
            (lit ''test-token'') (Valid scenario_request) [])
       = \<lparr>status = 404,
          body = Some (JObj [(lit ''detail'', JStr (lit ''Ollama API error: '' @ not_found_text))]),
          response_headers = []\<rparr>
   \<and> fst (post_chat_completions default_config (scenario_runtime surrogate_backend)
            (lit ''test-token'') scenario_request [])
       = Inr surrogate_response
   \<and> serialize_response surrogate_response = (Inl SerializationError :: exception + real json)
   \<and> fst (chat_completions_route default_config (scenario_runtime surrogate_backend)
            (lit ''test-token'') (Valid scenario_request) [])
       = \<lparr>status = 500,
          body = Some (JObj [(lit ''error'',
                              JObj [(lit ''message'', JStr (lit ''surrogates not allowed'')),
                                    (lit ''type'', JStr (lit ''internal_server_error''))])]),
          response_headers = []\<rparr>"
proof -
  let ?h = "\<lparr>status_code = 404, detail = lit ''Ollama API error: '' @ not_found_text,
             headers = []\<rparr>"
  have raised: "fst (post_chat_completions default_config (scenario_runtime not_found_backend)
          (lit ''test-token'') scenario_request []) = Inl ?h"
    by (simp add: post_chat_completions_def verify_token_def create_chat_completion_def
        call_ollama_def Let_def default_config_def scenario_runtime_def not_found_backend_def)
  have returned: "fst (post_chat_completions default_config (scenario_runtime surrogate_backend)
            (lit ''test-token'') scenario_request []) = Inr surrogate_response"
    by (simp add: post_chat_completions_def verify_token_def create_chat_completion_def
        call_ollama_def convert_response_def raising_def Let_def default_config_def
        scenario_runtime_def surrogate_backend_def surrogate_response_def
        scenario_request_def lit_def)
  have unserialisable:
    "serialize_response surrogate_response = (Inl SerializationError :: exception + real json)"
    by (simp add: serialize_response_def surrogate_response_def encodable_def lit_def)
  have rendered: "(http_exception_handler ?h :: real Response)
                  = \<lparr>status = 404,
                     body = Some (JObj [(lit ''detail'',
                                         JStr (lit ''Ollama API error: '' @ not_found_text))]),
                     response_headers = []\<rparr>"
    by (simp add: http_exception_handler_def is_body_allowed_for_status_code_def)
  have message: "str_exc (scenario_runtime surrogate_backend) SerializationError
                   = lit ''surrogates not allowed''"
    by (simp add: scenario_runtime_def)
  note a = error_body_shapes [THEN conjunct1, rule_format, OF raised, THEN conjunct1]
  note b = error_body_shapes [THEN conjunct2, rule_format, OF conjI [OF returned unserialisable]]
  from b [unfolded message] have b1: "fst (chat_completions_route default_config (scenario_runtime surrogate_backend)
            (lit ''test-token'') (Valid scenario_request) [])
       = \<lparr>status = 500,
          body = Some (JObj [(lit ''error'',
                              JObj [(lit ''message'', JStr (lit ''surrogates not allowed'')),
                                    (lit ''type'', JStr (lit ''internal_server_error''))])]),
          response_headers = []\<rparr>"
    by (blast intro: trans)
  from a rendered have a1: "fst (chat_completions_route default_config
            (scenario_runtime not_found_backend) (lit ''test-token'') (Valid scenario_request) [])
       = \<lparr>status = 404,
          body = Some (JObj [(lit ''detail'', JStr (lit ''Ollama API error: '' @ not_found_text))]),
          response_headers = []\<rparr>"
    by simp
  from raised a1 returned unserialisable b1 show ?thesis by blast
qed

end
